theory Spec2Isabelle
  imports Complex_Main "HOL-Library.AList"
begin

section \<open>JavaScript values\<close>

text \<open>
  The values that travel through the i18n library.  A plain object keeps its own
  enumerable properties in insertion order; an object that is not plain (a class
  instance, a Date, an ObjectId) keeps its enumerable properties and, when it has a
  \<open>toJSON\<close> method, the value that method returns.  An \<open>Error\<close> instance is
  represented by its message.  Numbers are not inspected beyond their type.
\<close>

datatype jsval =
    Undefined
  | Null
  | Bool bool
  | Num real
  | Str string
  | Err string
  | Arr "jsval list"
  | Obj "(string \<times> jsval) list"
  | Inst "(string \<times> jsval) list" "jsval option"

text \<open>\<open>typeof v === 'object'\<close> with \<open>null\<close> and arrays taken apart, as tv4 does.\<close>

fun is_object :: "jsval \<Rightarrow> bool" where
  "is_object (Obj ps) = True"
| "is_object (Inst ps j) = True"
| "is_object (Err m) = True"
| "is_object v = False"

text \<open>The enumerable properties a \<open>for (key in v)\<close> loop visits.\<close>

fun props :: "jsval \<Rightarrow> (string \<times> jsval) list" where
  "props (Obj ps) = ps"
| "props (Inst ps j) = ps"
| "props v = []"

text \<open>Property read \<open>v[k]\<close>: a missing property reads as \<open>undefined\<close>.\<close>

definition get_prop :: "jsval \<Rightarrow> string \<Rightarrow> jsval" where
  "get_prop v k = (case map_of (props v) k of Some x \<Rightarrow> x | None \<Rightarrow> Undefined)"

text \<open>Property write \<open>v[k] = x\<close>: an existing property keeps its place, a new one is
  appended; a write on a primitive is lost.\<close>

fun set_prop :: "jsval \<Rightarrow> string \<Rightarrow> jsval \<Rightarrow> jsval" where
  "set_prop (Obj ps) k x = Obj (AList.update k x ps)"
| "set_prop (Inst ps j) k x = Inst (AList.update k x ps) j"
| "set_prop v k x = v"

text \<open>JavaScript truthiness.\<close>

fun truthy :: "jsval \<Rightarrow> bool" where
  "truthy Undefined = False"
| "truthy Null = False"
| "truthy (Bool b) = b"
| "truthy (Num r) = (r \<noteq> 0)"
| "truthy (Str s) = (s \<noteq> [])"
| "truthy v = True"

section \<open>Node validator\<close>

text \<open>
  \<open>_validateNode\<close> hands the node to tv4 with \<open>TRANSLATE_SCHEMA\<close>.  The schema is
  the JSON document printed in the doc comment of \<open>TRANSLATE_SCHEMA\<close> in
  \<open>lib/i18n.js\<close> (and in the README); the part of JSON Schema it uses is a type, a
  list of required properties, per-property schemas and \<open>additionalProperties\<close>.
\<close>

datatype schema =
  Schema (stype: "string option") (required: "string list")
         (properties: "(string \<times> schema) list") (additionalProperties: "bool option")

text \<open>The type names tv4 compares with the schema's \<open>type\<close>.\<close>

fun dataType :: "jsval \<Rightarrow> string" where
  "dataType Undefined = ''undefined''"
| "dataType Null = ''null''"
| "dataType (Bool b) = ''boolean''"
| "dataType (Num r) = ''number''"
| "dataType (Str s) = ''string''"
| "dataType (Arr xs) = ''array''"
| "dataType v = ''object''"

definition validateType :: "string option \<Rightarrow> jsval \<Rightarrow> bool" where
  "validateType ty data = (case ty of None \<Rightarrow> True | Some t \<Rightarrow> t = dataType data)"

text \<open>
  tv4's \<open>validateAll\<close> for such a schema: the type; then, for objects only, every
  required property reads as something other than \<open>undefined\<close>, and every enumerable
  property either has a schema under \<open>properties\<close> and satisfies it, or is additional
  and is refused only when \<open>additionalProperties\<close> is \<open>false\<close>.
\<close>

fun validateAll :: "schema \<Rightarrow> jsval \<Rightarrow> bool"
  and validateProperty :: "(string \<times> schema) list \<Rightarrow> bool option \<Rightarrow> string \<Rightarrow> jsval \<Rightarrow> bool"
  and validateProperties :: "(string \<times> schema) list \<Rightarrow> bool option \<Rightarrow> (string \<times> jsval) list \<Rightarrow> bool"
where
  "validateAll (Schema ty req ps addl) data =
     (validateType ty data \<and>
      (if is_object data
       then list_all (\<lambda>k. get_prop data k \<noteq> Undefined) req \<and> validateProperties ps addl (props data)
       else True))"
| "validateProperty [] addl k x = (addl \<noteq> Some False)"
| "validateProperty ((k', s) # ps) addl k x =
     (if k = k' then validateAll s x else validateProperty ps addl k x)"
| "validateProperties ps addl [] = True"
| "validateProperties ps addl ((k, x) # kxs) =
     (validateProperty ps addl k x \<and> validateProperties ps addl kxs)"

text \<open>
  The file \<open>lib/@translate.schema.json\<close> that \<open>TRANSLATE_SCHEMA\<close> is read from
  is not among the sources.  The constant is transcribed from the doc comment above
  it in \<open>lib/i18n.js\<close>, which prints the schema and matches the README: \<open>type\<close>,
  \<open>required\<close> and \<open>properties\<close> at both levels, \<open>additionalProperties:
  false\<close> at the outer level only.
\<close>

definition TRANSLATE_SCHEMA :: schema where
  "TRANSLATE_SCHEMA =
     Schema (Some ''object'') [''@translate'']
       [(''@translate'',
           Schema (Some ''object'') [''key'']
             [(''key'', Schema (Some ''string'') [] [] None),
              (''quantity'', Schema (Some ''number'') [] [] None),
              (''placeholders'', Schema (Some ''object'') [] [] None),
              (''fallback'', Schema (Some ''string'') [] [] None)]
             None)]
       (Some False)"

definition TRANSLATE_SYMBOL :: string where
  "TRANSLATE_SYMBOL = hd (required TRANSLATE_SCHEMA)"

definition validateNode :: "jsval \<Rightarrow> bool" where
  "validateNode node = validateAll TRANSLATE_SCHEMA node"

fun is_str :: "jsval \<Rightarrow> bool" where
  "is_str (Str s) = True"
| "is_str v = False"

fun is_num :: "jsval \<Rightarrow> bool" where
  "is_num (Num r) = True"
| "is_num v = False"


text \<open>The text of a string value (the empty text for anything else).\<close>

fun str_of :: "jsval \<Rightarrow> string" where
  "str_of (Str s) = s"
| "str_of v = []"




section \<open>Loader cache\<close>

text \<open>
  The loader keeps an \<open>lru-cache\<close> from translation key to an object
  \<open>{locale: template}\<close>.  The cache is a list of entries, most recently used first,
  bounded by \<open>max\<close> entries (\<open>0\<close> stands for no bound, as in the library).
  A read moves the entry to the front; a write puts the entry at the front and drops
  what exceeds the bound.  Expiry by age needs a clock and is not part of the model:
  entries are taken to be younger than \<open>maxAge\<close>.
\<close>

type_synonym templates = "(string \<times> string) list"

record lru =
  max_entries :: nat
  entries :: "(string \<times> templates) list"

definition lru_get :: "lru \<Rightarrow> string \<Rightarrow> templates option \<times> lru" where
  "lru_get c k =
     (case map_of (entries c) k of
        None \<Rightarrow> (None, c)
      | Some v \<Rightarrow> (Some v, c\<lparr>entries := (k, v) # filter (\<lambda>e. fst e \<noteq> k) (entries c)\<rparr>))"

definition lru_trim :: "nat \<Rightarrow> 'a list \<Rightarrow> 'a list" where
  "lru_trim n xs = (if n = 0 then xs else take n xs)"

definition lru_set :: "lru \<Rightarrow> string \<Rightarrow> templates \<Rightarrow> lru" where
  "lru_set c k v =
     c\<lparr>entries := lru_trim (max_entries c) ((k, v) # filter (\<lambda>e. fst e \<noteq> k) (entries c))\<rparr>"

text \<open>\<open>Object.assign(target, source)\<close>: the source's properties are written into the
  target one after the other.\<close>

definition obj_assign :: "(string \<times> 'a) list \<Rightarrow> (string \<times> 'a) list \<Rightarrow> (string \<times> 'a) list" where
  "obj_assign target source = foldl (\<lambda>acc (k, v). AList.update k v acc) target source"

text \<open>lodash \<open>_.pick(object, ...names)\<close> for property names without path syntax.\<close>

definition pick :: "(string \<times> 'a) list \<Rightarrow> string list \<Rightarrow> (string \<times> 'a) list" where
  "pick object names =
     foldl (\<lambda>acc n. case map_of object n of Some v \<Rightarrow> AList.update n v acc | None \<Rightarrow> acc) [] names"

text \<open>
  The remote store is a capability: a batch of \<open>hmget key locale...\<close> commands is
  answered by an error or by one reply per command, each reply giving one optional
  template per requested locale.
\<close>

type_synonym remote = "(string \<times> string list) list \<Rightarrow> string + string option list list"

record loader =
  redis :: "remote option"
  cache :: lru
  warnings :: "string list"

definition getItemFromCache :: "loader \<Rightarrow> string \<Rightarrow> string list \<Rightarrow> templates \<times> loader" where
  "getItemFromCache ld key locales =
     (let (hit, c) = lru_get (cache ld) key;
          value = (case hit of Some v \<Rightarrow> v | None \<Rightarrow> [])
      in (if locales \<noteq> [] then pick value locales else value, ld\<lparr>cache := c\<rparr>))"

definition setItemToCache :: "loader \<Rightarrow> string \<Rightarrow> templates \<Rightarrow> loader" where
  "setItemToCache ld key translations =
     (let (value, ld') = getItemFromCache ld key []
      in ld'\<lparr>cache := lru_set (cache ld') key (obj_assign value translations)\<rparr>)"

text \<open>What the cache holds for a key (nothing reads as the empty object).\<close>

definition cached_templates :: "loader \<Rightarrow> string \<Rightarrow> templates" where
  "cached_templates ld key = (case map_of (entries (cache ld)) key of Some v \<Rightarrow> v | None \<Rightarrow> [])"

section \<open>Engine\<close>

text \<open>
  An \<open>Engine\<close> object holds three references: its configuration object
  (\<open>_config\<close>), its i18next instance (\<open>_engine\<close>) and its logger (\<open>_logger\<close>).
  Configuration objects and i18next instances are mutable and can be reached from
  several engines, so they live in a store and engines hold their addresses.  The
  i18next resource store is shared by an instance and all its clones, so there is
  one catalog.  A logger is known by an identity and by what its \<open>clone\<close> method
  returns, when it has one.
\<close>

datatype logger = Logger nat "logger option"

fun logger_clone :: "logger \<Rightarrow> logger" where
  "logger_clone (Logger n c) = (case c of Some l \<Rightarrow> l | None \<Rightarrow> Logger n c)"

record config =
  cfg_locale :: jsval
  cfg_timezone :: jsval

type_synonym catalog = "((string \<times> string) \<times> string) list"

record engine =
  config_at :: nat
  instance_at :: nat
  logger_of :: logger

record world =
  configs :: "nat \<Rightarrow> config"
  languages :: "nat \<Rightarrow> string"
  allocated :: nat
  resources :: catalog
  error_log :: "(logger \<times> string \<times> jsval) list"
  the_loader :: loader

definition DEFAULT_LOCALE :: string where
  "DEFAULT_LOCALE = ''en''"

definition get_locale :: "world \<Rightarrow> engine \<Rightarrow> string" where
  "get_locale w this = languages w (instance_at this)"

definition set_locale :: "world \<Rightarrow> engine \<Rightarrow> string \<Rightarrow> world" where
  "set_locale w this locale =
     w\<lparr>configs := (configs w)(config_at this := (configs w (config_at this))\<lparr>cfg_locale := Str locale\<rparr>),
       languages := (languages w)(instance_at this := locale)\<rparr>"

definition get_timezone :: "world \<Rightarrow> engine \<Rightarrow> jsval" where
  "get_timezone w this = cfg_timezone (configs w (config_at this))"

definition set_timezone :: "world \<Rightarrow> engine \<Rightarrow> jsval \<Rightarrow> world" where
  "set_timezone w this timezone =
     w\<lparr>configs := (configs w)(config_at this := (configs w (config_at this))\<lparr>cfg_timezone := timezone\<rparr>)\<rparr>"

definition get_logger :: "engine \<Rightarrow> logger" where
  "get_logger this = logger_of this"

definition getDefaultLocale :: string where
  "getDefaultLocale = ''en''"

definition getLocales :: "world \<Rightarrow> engine \<Rightarrow> string list" where
  "getLocales w this =
     (if get_locale w this \<noteq> getDefaultLocale then [get_locale w this, getDefaultLocale]
      else [getDefaultLocale])"

text \<open>\<open>init()\<close> without a configuration hands \<open>lng: this.locale || DEFAULT_LOCALE\<close>
  to the i18next instance, which makes it its language.\<close>

definition init :: "world \<Rightarrow> engine \<Rightarrow> world" where
  "init w this =
     w\<lparr>languages := (languages w)(instance_at this :=
          (if get_locale w this \<noteq> [] then get_locale w this else DEFAULT_LOCALE))\<rparr>"

text \<open>
  \<open>clone()\<close>: \<open>new Engine(this._config)\<close> stores the very configuration object of
  \<open>this\<close> in the new engine; \<open>cloneInstance()\<close> makes a new i18next instance with
  the language copied; the logger is cloned when it can be.
\<close>

definition clone :: "world \<Rightarrow> engine \<Rightarrow> engine \<times> world" where
  "clone w this =
     (let a = allocated w
      in (\<lparr>config_at = config_at this, instance_at = a, logger_of = logger_clone (logger_of this)\<rparr>,
          w\<lparr>languages := (languages w)(a := languages w (instance_at this)), allocated := Suc a\<rparr>))"

text \<open>
  \<open>addTranslations\<close> calls \<open>addResourceBundle(locale, 'translation', translations,
  true)\<close>: a deep extension without the overwrite flag, which adds the templates
  that are new and keeps those the catalog already has.  Keys keep their dotted
  spelling.
\<close>

definition addResourceBundle :: "catalog \<Rightarrow> string \<Rightarrow> templates \<Rightarrow> catalog" where
  "addResourceBundle cat lng ts =
     foldl (\<lambda>c (k, t). if map_of c (lng, k) = None then c @ [((lng, k), t)] else c) cat ts"

definition addTranslations :: "world \<Rightarrow> engine \<Rightarrow> string \<Rightarrow> templates \<Rightarrow> world" where
  "addTranslations w this locale translations =
     w\<lparr>resources := addResourceBundle (resources w) locale translations\<rparr>"

section \<open>Libraries behind the engine\<close>

text \<open>
  What the third-party libraries compute is not decided here; it is a parameter:
  the languages i18next consults for a language, its plural suffix for a count, the
  string JavaScript makes of a value, the \<open>$t(...)\<close> nesting pass of i18next, and
  the renderings of moment, humanize-duration and \<open>Intl.NumberFormat\<close> (the last
  two can raise).
\<close>

record ext =
  toResolveHierarchy :: "string \<Rightarrow> string list"
  getSuffix :: "string \<Rightarrow> jsval \<Rightarrow> string"
  js_to_string :: "jsval \<Rightarrow> string"
  nest :: "catalog \<Rightarrow> string \<Rightarrow> string \<Rightarrow> string"
  moment_format :: "jsval \<Rightarrow> string \<Rightarrow> jsval option \<Rightarrow> string \<Rightarrow> string"
  humanizeDuration :: "jsval \<Rightarrow> string \<Rightarrow> jsval option \<Rightarrow> bool \<Rightarrow> jsval list option \<Rightarrow> string + string"
  intl_currency :: "string \<Rightarrow> jsval \<Rightarrow> jsval \<Rightarrow> jsval \<Rightarrow> string + string"

section \<open>Formatters\<close>

definition getValidTimezone :: "jsval \<Rightarrow> jsval \<Rightarrow> jsval" where
  "getValidTimezone timezone engine_timezone =
     (if truthy timezone then timezone else engine_timezone)"

text \<open>A parameter pattern \<open>{ value, ... }\<close> raises a TypeError on \<open>undefined\<close> and
  \<open>null\<close>, and reads \<open>undefined\<close> from a primitive.\<close>

definition destructure_error :: "jsval \<Rightarrow> string option" where
  "destructure_error v =
     (if v = Undefined \<or> v = Null then Some ''Cannot destructure property of undefined or null''
      else None)"

definition localeDate :: "ext \<Rightarrow> jsval \<Rightarrow> string \<Rightarrow> jsval \<Rightarrow> string + (string \<Rightarrow> string)" where
  "localeDate x d locale engine_timezone =
     (case destructure_error d of
        Some e \<Rightarrow> Inl e
      | None \<Rightarrow>
          (let tz = getValidTimezone (get_prop d ''timezone'') engine_timezone
           in if truthy tz then Inr (moment_format x (get_prop d ''value'') locale (Some tz))
              else Inr (moment_format x (get_prop d ''value'') locale None)))"

definition formatDate :: "ext \<Rightarrow> jsval \<Rightarrow> string \<Rightarrow> jsval \<Rightarrow> string + string" where
  "formatDate x v locale engine_timezone =
     (case localeDate x v locale engine_timezone of Inl e \<Rightarrow> Inl e | Inr m \<Rightarrow> Inr (m ''LL''))"

definition formatTime :: "ext \<Rightarrow> jsval \<Rightarrow> string \<Rightarrow> jsval \<Rightarrow> string + string" where
  "formatTime x v locale engine_timezone =
     (case localeDate x v locale engine_timezone of Inl e \<Rightarrow> Inl e | Inr m \<Rightarrow> Inr (m ''LT''))"

definition formatDateAndTime :: "ext \<Rightarrow> jsval \<Rightarrow> string \<Rightarrow> jsval \<Rightarrow> string + string" where
  "formatDateAndTime x v locale engine_timezone =
     (case localeDate x v locale engine_timezone of Inl e \<Rightarrow> Inl e | Inr m \<Rightarrow> Inr (m ''LLLL''))"

definition durationUnitsMap :: "(string \<times> string) list" where
  "durationUnitsMap =
     [(''year'', ''y''), (''years'', ''y''), (''month'', ''mo''), (''months'', ''mo''),
      (''week'', ''w''), (''weeks'', ''w''), (''day'', ''d''), (''days'', ''d''),
      (''hour'', ''h''), (''hours'', ''h''), (''minute'', ''m''), (''minutes'', ''m''),
      (''second'', ''s''), (''seconds'', ''s''), (''millisecond'', ''ms''),
      (''milliseconds'', ''ms'')]"

text \<open>lodash \<open>_.isEmpty\<close>.\<close>

fun isEmpty :: "jsval \<Rightarrow> bool" where
  "isEmpty (Arr xs) = (xs = [])"
| "isEmpty (Str s) = (s = [])"
| "isEmpty (Obj ps) = (ps = [])"
| "isEmpty (Inst ps j) = (ps = [])"
| "isEmpty v = True"

definition formatDuration :: "ext \<Rightarrow> jsval \<Rightarrow> string \<Rightarrow> jsval \<Rightarrow> string + string" where
  "formatDuration x d locale engine_timezone =
     (case destructure_error d of
        Some e \<Rightarrow> Inl e
      | None \<Rightarrow>
          (let language = takeWhile (\<lambda>c. c \<noteq> CHR ''-'') locale;
               largest = (if truthy (get_prop d ''precision'') then Some (get_prop d ''precision'') else None);
               rounding = truthy (get_prop d ''round'');
               units = get_prop d ''units''
           in if \<not> isEmpty units
              then (case units of
                      Arr us \<Rightarrow>
                        humanizeDuration x (get_prop d ''value'') language largest rounding
                          (Some (map (\<lambda>unit. case map_of durationUnitsMap (str_of unit) of
                                               Some u \<Rightarrow> Str u | None \<Rightarrow> Undefined) us))
                    | _ \<Rightarrow> Inl ''units.map is not a function'')
              else humanizeDuration x (get_prop d ''value'') language largest rounding None))"

text \<open>\<open>Intl.NumberFormat\<close> with the currency style raises when no currency code is
  given.\<close>

definition formatCurrency :: "ext \<Rightarrow> jsval \<Rightarrow> string \<Rightarrow> jsval \<Rightarrow> string + string" where
  "formatCurrency x a locale engine_timezone =
     (case destructure_error a of
        Some e \<Rightarrow> Inl e
      | None \<Rightarrow>
          (if get_prop a ''currency'' = Undefined
           then Inl ''Currency code is required when style is currency''
           else intl_currency x locale (get_prop a ''precision'') (get_prop a ''currency'')
                  (get_prop a ''value'')))"

definition FORMATTERS :: "(string \<times> (ext \<Rightarrow> jsval \<Rightarrow> string \<Rightarrow> jsval \<Rightarrow> string + string)) list" where
  "FORMATTERS =
     [(''date'', formatDate), (''time'', formatTime), (''datetime'', formatDateAndTime),
      (''duration'', formatDuration), (''currency'', formatCurrency)]"

definition formatter :: "ext \<Rightarrow> jsval \<Rightarrow> string \<Rightarrow> string \<Rightarrow> jsval \<Rightarrow> string + jsval" where
  "formatter x v format locale engine_timezone =
     (case map_of FORMATTERS format of
        Some f \<Rightarrow> (case f x v locale engine_timezone of Inl e \<Rightarrow> Inl e | Inr s \<Rightarrow> Inr (Str s))
      | None \<Rightarrow> Inr v)"

section \<open>The i18next instance\<close>

text \<open>
  The part of i18next the engine relies on.  A key may name a namespace before the
  separator \<open>:\<close>; the engine only ever fills the namespace \<open>translation\<close>, so
  this is the one namespace of the catalog.  A lookup walks the languages consulted
  for the instance's language and, when the options carry a \<open>count\<close> that is not a
  string, tries the key with the plural suffix before the bare key.  \<open>exists\<close>
  looks the key up without options.  \<open>t\<close> takes the template found, or the key
  itself (less its namespace) when there is none, and interpolates it with the
  options as data: \<open>{{name}}\<close> reads a value, \<open>{{name, format}}\<close> passes it to
  the \<open>format\<close> function the engine configured; then the nesting pass runs.
  Templates are scanned from left to right and a placeholder does not span a line
  break.  Options other than \<open>count\<close> are plain data.
\<close>

fun split_on :: "char \<Rightarrow> string \<Rightarrow> string list" where
  "split_on d [] = [[]]"
| "split_on d (c # cs) =
     (if c = d then [] # split_on d cs
      else (case split_on d cs of x # xs \<Rightarrow> (c # x) # xs | [] \<Rightarrow> [[c]]))"

fun join_with :: "char \<Rightarrow> string list \<Rightarrow> string" where
  "join_with d [] = []"
| "join_with d [p] = p"
| "join_with d (p # ps) = p @ d # join_with d ps"

text \<open>The namespace and the key of a key, as i18next's \<open>extractFromKey\<close> takes them
  apart.\<close>

definition extractFromKey :: "string \<Rightarrow> string \<times> string" where
  "extractFromKey key =
     (if CHR '':'' \<in> set key
      then (case split_on (CHR '':'') key of
              ns # parts \<Rightarrow> (ns, join_with (CHR ''.'') parts)
            | [] \<Rightarrow> (''translation'', key))
      else (''translation'', key))"

fun firstSome :: "('a \<Rightarrow> 'b option) \<Rightarrow> 'a list \<Rightarrow> 'b option" where
  "firstSome f [] = None"
| "firstSome f (x # xs) = (case f x of Some y \<Rightarrow> Some y | None \<Rightarrow> firstSome f xs)"

definition needsPluralHandling :: "jsval \<Rightarrow> bool" where
  "needsPluralHandling options =
     (get_prop options ''count'' \<noteq> Undefined \<and> \<not> is_str (get_prop options ''count''))"

definition i18next_resolve :: "ext \<Rightarrow> catalog \<Rightarrow> string \<Rightarrow> string \<Rightarrow> jsval \<Rightarrow> string option" where
  "i18next_resolve x cat lng key options =
     (if fst (extractFromKey key) = ''translation''
      then firstSome
             (\<lambda>code. firstSome (\<lambda>k. map_of cat (code, k))
                       (if needsPluralHandling options
                        then [snd (extractFromKey key) @ getSuffix x code (get_prop options ''count''),
                              snd (extractFromKey key)]
                        else [snd (extractFromKey key)]))
             (toResolveHierarchy x lng)
      else None)"

definition is_space :: "char \<Rightarrow> bool" where
  "is_space c = (c = CHR '' '' \<or> c = CHR 0x09 \<or> c = CHR 0x0A \<or> c = CHR 0x0D)"

definition trim :: "string \<Rightarrow> string" where
  "trim s = rev (dropWhile is_space (rev (dropWhile is_space s)))"

text \<open>The text before the first \<open>}}\<close>.\<close>

fun find_close :: "string \<Rightarrow> string option" where
  "find_close (a # b # cs) =
     (if a = CHR ''}'' \<and> b = CHR ''}'' then Some []
      else map_option ((#) a) (find_close (b # cs)))"
| "find_close cs = None"

text \<open>A match of \<open>{{(.+?)}}\<close> at the head of the text: its group.  The group
  is not empty and holds no line break.\<close>

definition match_placeholder :: "string \<Rightarrow> string option" where
  "match_placeholder s =
     (case s of
        a # b # d # r \<Rightarrow>
          if a = CHR ''{'' \<and> b = CHR ''{''
          then (case find_close r of
                  Some body \<Rightarrow>
                    if CHR 0x0A \<in> set (d # body) \<or> CHR 0x0D \<in> set (d # body) then None
                    else Some (d # body)
                | None \<Rightarrow> None)
          else None
      | _ \<Rightarrow> None)"

text \<open>
  Interpolation: where a placeholder matches, the handler's text replaces it and the
  rest of the match is skipped (\<open>skip\<close> counts the characters still to skip);
  elsewhere the character is copied.  An error of the handler ends the
  interpolation.
\<close>

fun interpolate :: "(string \<Rightarrow> string + string) \<Rightarrow> nat \<Rightarrow> string \<Rightarrow> string + string" where
  "interpolate h skip [] = Inr []"
| "interpolate h skip (c # cs) =
     (if 0 < skip then interpolate h (skip - 1) cs
      else case match_placeholder (c # cs) of
             Some body \<Rightarrow>
               (case h (trim body) of
                  Inl e \<Rightarrow> Inl e
                | Inr v \<Rightarrow> (case interpolate h (length body + 3) cs of
                             Inl e \<Rightarrow> Inl e
                           | Inr r \<Rightarrow> Inr (v @ r)))
           | None \<Rightarrow> (case interpolate h 0 cs of Inl e \<Rightarrow> Inl e | Inr r \<Rightarrow> Inr (c # r)))"

fun getPath_list :: "jsval \<Rightarrow> string list \<Rightarrow> jsval" where
  "getPath_list v [] = v"
| "getPath_list v [k] = (if truthy v then get_prop v k else Undefined)"
| "getPath_list v (k # ks) = (if truthy v then getPath_list (get_prop v k) ks else Undefined)"

definition getPath :: "jsval \<Rightarrow> string \<Rightarrow> jsval" where
  "getPath data path = getPath_list data (split_on (CHR ''.'') path)"

definition handleFormat :: "(jsval \<Rightarrow> string \<Rightarrow> string + jsval) \<Rightarrow> jsval \<Rightarrow> string \<Rightarrow> string + jsval" where
  "handleFormat format data key =
     (if CHR '','' \<in> set key
      then format (getPath data (trim (takeWhile (\<lambda>c. c \<noteq> CHR '','') key)))
                  (trim (tl (dropWhile (\<lambda>c. c \<noteq> CHR '','') key)))
      else Inr (getPath data key))"

definition makeString :: "ext \<Rightarrow> jsval \<Rightarrow> string" where
  "makeString x v =
     (case v of Str s \<Rightarrow> s | Undefined \<Rightarrow> [] | Null \<Rightarrow> [] | _ \<Rightarrow> js_to_string x v)"

definition i18next_interpolate :: "ext \<Rightarrow> world \<Rightarrow> engine \<Rightarrow> string \<Rightarrow> jsval \<Rightarrow> string + string" where
  "i18next_interpolate x w this template data =
     interpolate
       (\<lambda>body. case handleFormat
                      (\<lambda>v format. formatter x v format (get_locale w this) (get_timezone w this))
                      data body of
                 Inl e \<Rightarrow> Inl e
               | Inr v \<Rightarrow> Inr (makeString x v))
       0 template"

definition i18next_exists :: "ext \<Rightarrow> world \<Rightarrow> engine \<Rightarrow> string \<Rightarrow> bool" where
  "i18next_exists x w this key =
     (i18next_resolve x (resources w) (get_locale w this) key (Obj []) \<noteq> None)"

definition i18next_t :: "ext \<Rightarrow> world \<Rightarrow> engine \<Rightarrow> string \<Rightarrow> jsval \<Rightarrow> string + string" where
  "i18next_t x w this key options =
     (let res = (case i18next_resolve x (resources w) (get_locale w this) key options of
                   Some template \<Rightarrow> template
                 | None \<Rightarrow> snd (extractFromKey key))
      in case i18next_interpolate x w this res options of
           Inl e \<Rightarrow> Inl e
         | Inr s \<Rightarrow> Inr (nest x (resources w) (get_locale w this) s))"

section \<open>Engine.t\<close>

text \<open>
  \<open>t(translate)\<close> returns a generator function that closes over the
  \<open>translate\<close> object.  Running it gives the translation, or the \<open>translate\<close>
  object itself with the error attached when i18next raises.  The function writes
  into \<open>translate\<close> and into its \<open>placeholders\<close>, so it returns, next to its
  result, the \<open>translate\<close> object as it leaves it.  \<open>placeholders_of\<close> is the
  \<open>placeholders\<close> variable after the plural-form step, \<open>after_plural_form\<close> the
  \<open>translate\<close> object after it (a \<open>placeholders\<close> object that was defaulted is
  not part of \<open>translate\<close>), and \<open>try_block\<close> what the \<open>try\<close> block returns
  or raises.
\<close>

definition placeholders_of :: "jsval \<Rightarrow> jsval" where
  "placeholders_of translate =
     (let quantity = get_prop translate ''quantity'';
          given = get_prop translate ''placeholders'';
          placeholders = (if given = Undefined then Obj [] else given)
      in if is_num quantity then set_prop placeholders ''count'' quantity else placeholders)"

definition after_plural_form :: "jsval \<Rightarrow> jsval" where
  "after_plural_form translate =
     (if get_prop translate ''placeholders'' = Undefined then translate
      else set_prop translate ''placeholders'' (placeholders_of translate))"

definition try_block :: "ext \<Rightarrow> world \<Rightarrow> engine \<Rightarrow> jsval \<Rightarrow> string + string" where
  "try_block x w self translate =
     (let key = str_of (get_prop translate ''key'');
          fallback = get_prop translate ''fallback'';
          placeholders = placeholders_of translate
      in if \<not> i18next_exists x w self key \<and> truthy fallback
         then i18next_t x w self (str_of fallback) placeholders
         else i18next_t x w self key placeholders)"

definition translateGenerator :: "ext \<Rightarrow> world \<Rightarrow> engine \<Rightarrow> jsval \<Rightarrow> jsval \<times> jsval \<times> world" where
  "translateGenerator x w self translate =
     (case try_block x w self translate of
        Inr s \<Rightarrow> (Str s, after_plural_form translate, w)
      | Inl error \<Rightarrow>
          (let marked = set_prop (after_plural_form translate) ''error'' (Err error)
           in (marked, marked,
               w\<lparr>error_log := error_log w @ [(get_logger self, error, after_plural_form translate)]\<rparr>)))"

section \<open>Loader\<close>

text \<open>
  The mapping the loader builds goes from locale to key to template.  lodash
  \<open>_.set(result, `${locale}.${key}`, value)\<close> writes one template into it and keeps
  what the locale already has; the key keeps its dotted spelling.
\<close>

type_synonym by_locale = "(string \<times> templates) list"

definition set_template :: "by_locale \<Rightarrow> string \<Rightarrow> string \<Rightarrow> string \<Rightarrow> by_locale" where
  "set_template result locale key value =
     AList.update locale
       (AList.update key value (case map_of result locale of Some m \<Rightarrow> m | None \<Rightarrow> []))
       result"

definition loadFromCache_step :: "string list \<Rightarrow> (by_locale \<times> string list) \<times> loader \<Rightarrow> string
                                     \<Rightarrow> (by_locale \<times> string list) \<times> loader" where
  "loadFromCache_step locales =
     (\<lambda>((translations, unknown), ld) key.
        let (cached, ld') = getItemFromCache ld key locales
        in if cached \<noteq> []
           then ((obj_assign translations
                    (foldl (\<lambda>result (locale, value). set_template result locale key value)
                       [] cached),
                  unknown), ld')
           else ((translations, unknown @ [key]), ld'))"

definition loadFromCache :: "world \<Rightarrow> engine \<Rightarrow> string list \<Rightarrow> (by_locale \<times> string list) \<times> world" where
  "loadFromCache w engine keys =
     (let locales = getLocales w engine;
          (found, ld) = foldl (loadFromCache_step locales) (([], []), the_loader w) keys
      in (found, w\<lparr>the_loader := ld\<rparr>))"

text \<open>lodash \<open>_.get(res, `${i}.${j}`)\<close> on the replies.\<close>

definition get_reply :: "string option list list \<Rightarrow> nat \<Rightarrow> nat \<Rightarrow> string option" where
  "get_reply res i j =
     (if i < length res then (if j < length (res ! i) then res ! i ! j else None) else None)"

text \<open>
  The loop that reformats the replies: over \<open>keys.entries()\<close>, and inside over
  \<open>locales.entries()\<close>; a template that is there and not empty is emitted as an
  \<open>add\<close> event, which \<open>setItemToCache\<close> listens to, and written into the
  translations.
\<close>

definition reformat :: "loader \<Rightarrow> string option list list \<Rightarrow> string list \<Rightarrow> string list \<Rightarrow> by_locale
                          \<Rightarrow> by_locale \<times> loader" where
  "reformat ld res keys locales translations =
     foldl (\<lambda>(tr, l) ((i, key), (j, locale)).
              case get_reply res i j of
                Some template \<Rightarrow>
                  if template \<noteq> []
                  then (set_template tr locale key template,
                        setItemToCache l key [(locale, template)])
                  else (tr, l)
              | None \<Rightarrow> (tr, l))
       (translations, ld)
       (List.product (List.enumerate 0 keys) (List.enumerate 0 locales))"

definition addAll :: "world \<Rightarrow> engine \<Rightarrow> by_locale \<Rightarrow> world" where
  "addAll w engine translations =
     foldl (\<lambda>w' (locale, templates). addTranslations w' engine locale templates) w translations"

definition warn :: "world \<Rightarrow> string \<Rightarrow> world" where
  "warn w error = w\<lparr>the_loader := (the_loader w)\<lparr>warnings := warnings (the_loader w) @ [error]\<rparr>\<rparr>"

text \<open>
  \<open>load\<close>: without a Redis client the empty mapping is returned at once.  Otherwise
  the body runs under \<open>try\<close>; the one step that can raise in it is the batched
  request, and the \<open>catch\<close> logs a warning and falls through to the \<open>return\<close>
  with the translations gathered so far.
\<close>

definition load :: "world \<Rightarrow> engine \<Rightarrow> string list \<Rightarrow> by_locale \<times> world" where
  "load w engine keys =
     (case redis (the_loader w) of
        None \<Rightarrow> ([], w)
      | Some multi_exec \<Rightarrow>
          (let locales = getLocales w engine;
               ((cached, unknown), w1) = loadFromCache w engine keys;
               translations = obj_assign [] cached
           in if unknown \<noteq> []
              then (case multi_exec (map (\<lambda>key. (key, getLocales w1 engine)) unknown) of
                      Inl error \<Rightarrow> (translations, warn w1 error)
                    | Inr res \<Rightarrow>
                        (let (translations', ld) =
                               reformat (the_loader w1) res keys locales translations
                         in (translations', addAll (w1\<lparr>the_loader := ld\<rparr>) engine translations')))
              else (translations, addAll w1 engine translations)))"

text \<open>The same loop as the specification words it: zipped with the unknown keys.\<close>

definition spec_load_result :: "world \<Rightarrow> engine \<Rightarrow> string list \<Rightarrow> string option list list \<Rightarrow> by_locale" where
  "spec_load_result w engine keys res =
     (let locales = getLocales w engine;
          ((cached, unknown), w1) = loadFromCache w engine keys
      in fst (reformat (the_loader w1) res unknown locales (obj_assign [] cached)))"

section \<open>Tree walker\<close>

text \<open>
  \<open>_walk\<close> returns a value in which every translation node is replaced by the
  generator function of \<open>engine.t\<close>, together with the keys met.  A generator
  function closes over the node's \<open>@translate\<close> object; that object is part of
  the caller's value when the walk came down from it through plain objects and
  arrays (then its place there is recorded, as the list of positions from the
  root), and is fresh when it came out of a \<open>toJSON\<close> call.
\<close>

datatype pending =
    Val jsval
  | Gen "nat list option" jsval
  | PArr "pending list"
  | PObj "(string \<times> pending) list"

definition child :: "nat list option \<Rightarrow> nat \<Rightarrow> nat list option" where
  "child p i = map_option (\<lambda>q. q @ [i]) p"

definition prop_index :: "(string \<times> jsval) list \<Rightarrow> string \<Rightarrow> nat" where
  "prop_index ps k = length (takeWhile (\<lambda>e. fst e \<noteq> k) ps)"

fun walk :: "nat list option \<Rightarrow> jsval \<Rightarrow> pending \<times> string list"
  and walkObject :: "nat list option \<Rightarrow> nat \<Rightarrow> (string \<times> jsval) list \<Rightarrow> (string \<times> pending) list \<times> string list"
  and walkArray :: "nat list option \<Rightarrow> nat \<Rightarrow> jsval list \<Rightarrow> pending list \<times> string list"
where
  "walk p object =
     (if validateNode object
      then (Gen (child p (prop_index (props object) TRANSLATE_SYMBOL)) (get_prop object TRANSLATE_SYMBOL),
            [str_of (get_prop (get_prop object TRANSLATE_SYMBOL) ''key'')])
      else (case object of
              Obj ps \<Rightarrow> (let (res, keys) = walkObject p 0 ps in (PObj res, keys))
            | Arr xs \<Rightarrow> (let (res, keys) = walkArray p 0 xs in (PArr res, keys))
            | Inst ps (Some j) \<Rightarrow> walk None j
            | _ \<Rightarrow> (Val object, [])))"
| "walkObject p i [] = ([], [])"
| "walkObject p i ((key, v) # kvs) =
     (let (res, keys) = walk (child p i) v;
          (rest, keys') = walkObject p (Suc i) kvs
      in ((key, res) # rest, keys @ keys'))"
| "walkArray p i [] = ([], [])"
| "walkArray p i (v # vs) =
     (let (res, keys) = walk (child p i) v;
          (rest, keys') = walkArray p (Suc i) vs
      in (res # rest, keys @ keys'))"

text \<open>Writing a value at a place of the caller's value.\<close>

fun put_at :: "jsval \<Rightarrow> nat list \<Rightarrow> jsval \<Rightarrow> jsval" where
  "put_at v [] x = x"
| "put_at (Obj ps) (i # p) x =
     (if i < length ps then Obj (ps[i := (fst (ps ! i), put_at (snd (ps ! i)) p x)]) else Obj ps)"
| "put_at (Inst ps j) (i # p) x =
     (if i < length ps then Inst (ps[i := (fst (ps ! i), put_at (snd (ps ! i)) p x)]) j else Inst ps j)"
| "put_at (Arr xs) (i # p) x =
     (if i < length xs then Arr (xs[i := put_at (xs ! i) p x]) else Arr xs)"
| "put_at v (i # p) x = v"

text \<open>
  \<open>yield res\<close> under \<open>co\<close>: plain objects and arrays are resolved member by
  member, a generator function is run, and anything else stays (at the top, \<open>co\<close>
  refuses it and the \<open>catch\<close> of \<open>translate\<close> returns it).  The state carried
  along is the caller's value and the world.
\<close>

fun co :: "ext \<Rightarrow> engine \<Rightarrow> pending \<Rightarrow> jsval \<times> world \<Rightarrow> jsval \<times> jsval \<times> world"
  and co_props :: "ext \<Rightarrow> engine \<Rightarrow> (string \<times> pending) list \<Rightarrow> jsval \<times> world
                     \<Rightarrow> (string \<times> jsval) list \<times> jsval \<times> world"
  and co_elems :: "ext \<Rightarrow> engine \<Rightarrow> pending list \<Rightarrow> jsval \<times> world \<Rightarrow> jsval list \<times> jsval \<times> world"
where
  "co x e (Val v) st = (v, st)"
| "co x e (Gen place translate) (object, w) =
     (let (res, translate', w') = translateGenerator x w e translate
      in (res, (case place of Some p \<Rightarrow> put_at object p translate' | None \<Rightarrow> object), w'))"
| "co x e (PArr xs) st = (let (ys, st') = co_elems x e xs st in (Arr ys, st'))"
| "co x e (PObj ps) st = (let (qs, st') = co_props x e ps st in (Obj qs, st'))"
| "co_props x e [] st = ([], st)"
| "co_props x e ((k, r) # ps) st =
     (let (v, st') = co x e r st; (qs, st'') = co_props x e ps st' in ((k, v) # qs, st''))"
| "co_elems x e [] st = ([], st)"
| "co_elems x e (r # rs) st =
     (let (v, st') = co x e r st; (vs, st'') = co_elems x e rs st' in (v # vs, st''))"

section \<open>translate\<close>

text \<open>
  \<open>translate(object, locale, timezone)\<close> on the module's engine \<open>_engine\<close>.  The
  result is the translated value, the caller's \<open>object\<close> as the call leaves it, and
  the world.
\<close>

definition translate :: "ext \<Rightarrow> world \<Rightarrow> engine \<Rightarrow> jsval \<Rightarrow> string \<Rightarrow> jsval \<Rightarrow> jsval \<times> jsval \<times> world" where
  "translate x w shared object locale timezone =
     (let (engine, w1) = clone w shared;
          w2 = set_locale w1 engine locale;
          w3 = set_timezone w2 engine timezone;
          w4 = init w3 engine;
          (res, keys) = walk (Some []) object;
          (loaded, w5) = load w4 engine keys
      in co x engine res (object, w5))"

section \<open>Structure of a translated value\<close>

fun is_scalar :: "jsval \<Rightarrow> bool" where
  "is_scalar Undefined = True"
| "is_scalar Null = True"
| "is_scalar (Bool b) = True"
| "is_scalar (Num r) = True"
| "is_scalar (Str s) = True"
| "is_scalar v = False"

text \<open>
  \<open>same_shape v out\<close>: \<open>out\<close> has the structure of \<open>v\<close> outside the valid
  translation nodes of \<open>v\<close>.  At a valid node anything may stand; a plain object
  has the same keys in the same order, with members related; an array has the same
  length, with members related in order; an object with a \<open>toJSON\<close> method is
  compared through what the method returns; any other value is itself.
\<close>

fun same_shape :: "jsval \<Rightarrow> jsval \<Rightarrow> bool"
  and same_shape_props :: "(string \<times> jsval) list \<Rightarrow> (string \<times> jsval) list \<Rightarrow> bool"
  and same_shape_elems :: "jsval list \<Rightarrow> jsval list \<Rightarrow> bool"
where
  "same_shape v out =
     (if validateNode v then True
      else (case v of
              Obj ps \<Rightarrow> (case out of Obj qs \<Rightarrow> same_shape_props ps qs | _ \<Rightarrow> False)
            | Arr xs \<Rightarrow> (case out of Arr ys \<Rightarrow> same_shape_elems xs ys | _ \<Rightarrow> False)
            | Inst ps (Some j) \<Rightarrow> same_shape j out
            | _ \<Rightarrow> out = v))"
| "same_shape_props [] qs = (qs = [])"
| "same_shape_props ((k, v) # ps) qs =
     (case qs of (k', out) # qs' \<Rightarrow> k' = k \<and> same_shape v out \<and> same_shape_props ps qs' | [] \<Rightarrow> False)"
| "same_shape_elems [] ys = (ys = [])"
| "same_shape_elems (v # vs) ys =
     (case ys of out # ys' \<Rightarrow> same_shape v out \<and> same_shape_elems vs ys' | [] \<Rightarrow> False)"

text \<open>
  \<open>untouched v\<close>: going down through plain objects and arrays, \<open>v\<close> holds no
  valid translation node and no object with a \<open>toJSON\<close> method.
\<close>

fun untouched :: "jsval \<Rightarrow> bool"
  and untouched_props :: "(string \<times> jsval) list \<Rightarrow> bool"
  and untouched_elems :: "jsval list \<Rightarrow> bool"
where
  "untouched v =
     (if validateNode v then False
      else (case v of
              Obj ps \<Rightarrow> untouched_props ps
            | Arr xs \<Rightarrow> untouched_elems xs
            | Inst ps (Some j) \<Rightarrow> False
            | _ \<Rightarrow> True))"
| "untouched_props [] = True"
| "untouched_props ((k, v) # ps) = (untouched v \<and> untouched_props ps)"
| "untouched_elems [] = True"
| "untouched_elems (v # vs) = (untouched v \<and> untouched_elems vs)"


section \<open>A concrete setting\<close>

text \<open>
  A setting to run the definitions in: the catalog of the test suite
  (\<open>test/lib/translate.test.js\<close>), the module's engine before any request, a
  loader without Redis client, and stand-ins for the libraries (English-like plural
  suffixes, fixed renderings).
\<close>

definition test_ext :: ext where
  "test_ext =
     \<lparr>toResolveHierarchy = (\<lambda>l. [l, takeWhile (\<lambda>c. c \<noteq> CHR ''-'') l, ''dev'']),
      getSuffix = (\<lambda>code count. if count = Num 1 then [] else ''_plural''),
      js_to_string = (\<lambda>v. ''[object Object]''),
      nest = (\<lambda>cat lng s. s),
      moment_format = (\<lambda>v locale tz token. token),
      humanizeDuration = (\<lambda>v language largest rounding units. Inr ''1 hour''),
      intl_currency = (\<lambda>locale precision currency v. Inr ''EUR 12.00'')\<rparr>"

definition test_catalog :: catalog where
  "test_catalog =
     [((''en'', ''howdy''), ''Howdy''),
      ((''en'', ''hello-john''), ''Hello {{john}}''),
      ((''en'', ''plural-dog''), ''one dog called {{dog}}''),
      ((''en'', ''plural-dog_plural''), ''{{count}} dogs'')]"

definition test_loader :: loader where
  "test_loader = \<lparr>redis = None, cache = \<lparr>max_entries = 500, entries = []\<rparr>, warnings = []\<rparr>"

definition test_world :: world where
  "test_world =
     \<lparr>configs = (\<lambda>a. \<lparr>cfg_locale = Undefined, cfg_timezone = Undefined\<rparr>),
      languages = (\<lambda>a. ''en''),
      allocated = 1,
      resources = test_catalog,
      error_log = [],
      the_loader = test_loader\<rparr>"

definition test_engine :: engine where
  "test_engine = \<lparr>config_at = 0, instance_at = 0, logger_of = Logger 0 None\<rparr>"

text \<open>A Redis client that refuses the connection, one that holds the template
  \<open>B\<close> for key \<open>b\<close> in \<open>en\<close>, and the test world with a given client and
  given cache entries.\<close>

definition failing_remote :: remote where
  "failing_remote = (\<lambda>commands. Inl ''The server refused the connection'')"

definition test_remote :: remote where
  "test_remote =
     (\<lambda>commands. Inr (map (\<lambda>(key, locales).
                         map (\<lambda>locale. map_of [((''b'', ''en''), ''B'')] (key, locale)) locales)
                       commands))"

definition with_redis :: "remote option \<Rightarrow> (string \<times> templates) list \<Rightarrow> world" where
  "with_redis r es =
     test_world\<lparr>the_loader := \<lparr>redis = r, cache = \<lparr>max_entries = 500, entries = es\<rparr>, warnings = []\<rparr>\<rparr>"

section \<open>Properties of the node validator\<close>









lemma TRANSLATE_SYMBOL_eq: "TRANSLATE_SYMBOL = ''@translate''"
  by (simp add: TRANSLATE_SYMBOL_def TRANSLATE_SCHEMA_def)







section \<open>Properties of the loader cache\<close>

lemma map_of_obj_assign: "map_of (obj_assign a b) = map_of a ++ map_of (rev b)"
proof (induction b arbitrary: a)
  case Nil
  then show ?case by (simp add: obj_assign_def)
next
  case (Cons kv b)
  obtain k v where kv: "kv = (k, v)" by (cases kv)
  have "obj_assign a (kv # b) = obj_assign (AList.update k v a) b"
    by (simp add: obj_assign_def kv)
  then show ?case
    by (intro ext) (auto simp add: kv Cons.IH update_conv' map_add_def split: option.splits)
qed

lemma map_of_pick_aux:
  "map_of (foldl (\<lambda>acc n. case map_of object n of Some v \<Rightarrow> AList.update n v acc | None \<Rightarrow> acc) acc names)
     = map_of acc ++ (map_of object |` set names)"
proof (induction names arbitrary: acc)
  case Nil
  then show ?case by simp
next
  case (Cons n names)
  show ?case
    by (rule ext) (auto simp add: Cons.IH update_conv' map_add_def restrict_map_def split: option.splits)
qed

lemma map_of_pick: "map_of (pick object names) = map_of object |` set names"
  by (simp add: pick_def map_of_pick_aux)

lemma lru_get_value: "fst (lru_get c k) = map_of (entries c) k"
  by (simp add: lru_get_def split: option.splits)

lemma lru_get_keeps: "map_of (entries (snd (lru_get c k))) k = map_of (entries c) k"
  by (simp add: lru_get_def split: option.splits)

lemma lru_set_value: "map_of (entries (lru_set c k v)) k = Some v"
  by (cases "max_entries c") (simp_all add: lru_set_def lru_trim_def)

lemma getItemFromCache_value:
  "fst (getItemFromCache ld key locales) =
     (if locales \<noteq> [] then pick (cached_templates ld key) locales else cached_templates ld key)"
  using lru_get_value[of "cache ld" key]
  by (auto simp add: getItemFromCache_def cached_templates_def split: prod.splits option.splits)

lemma getItemFromCache_keeps:
  "cached_templates (snd (getItemFromCache ld key locales)) key = cached_templates ld key"
  using lru_get_keeps[of "cache ld" key]
  by (auto simp add: getItemFromCache_def cached_templates_def Let_def split: prod.splits)

lemma setItemToCache_value:
  "cached_templates (setItemToCache ld key tr) key = obj_assign (cached_templates ld key) tr"
  using getItemFromCache_value[of ld key "[]"]
  by (auto simp add: setItemToCache_def cached_templates_def lru_set_value split: prod.splits)

text \<open>
  C9.  \<open>setItemToCache\<close> merges: what \<open>getItemFromCache\<close> reads for the key
  afterwards is what it read before, overridden by the templates written (a new
  locale is added, a locale already there takes the new template).  In particular
  writing \<open>{en: t1}\<close> and then \<open>{fr: t2}\<close> leaves both locales.  With locales
  given, \<open>getItemFromCache\<close> returns the entries of these locales only; with none
  given, all of them.
\<close>

theorem cache_set_merges_get_filters:
  "map_of (fst (getItemFromCache (setItemToCache ld key tr) key []))
     = map_of (fst (getItemFromCache ld key [])) ++ map_of (rev tr)
   \<and> map_of (fst (getItemFromCache
         (setItemToCache (setItemToCache ld key [(''en'', t1)]) key [(''fr'', t2)]) key []))
     = (map_of (fst (getItemFromCache ld key [])))(''en'' \<mapsto> t1, ''fr'' \<mapsto> t2)
   \<and> map_of (fst (getItemFromCache ld key locales))
     = (if locales = [] then map_of (fst (getItemFromCache ld key []))
        else map_of (fst (getItemFromCache ld key [])) |` set locales)"
  by (simp add: getItemFromCache_value setItemToCache_value map_of_obj_assign map_of_pick)

theorem cache_set_merges_get_filters_witness:
  "fst (getItemFromCache
          (setItemToCache (setItemToCache test_loader ''lru'' [(''en'', ''Howdy'')]) ''lru'' [(''fr'', ''Hey'')])
          ''lru'' [])
     = [(''en'', ''Howdy''), (''fr'', ''Hey'')]
   \<and> map_of (fst (getItemFromCache
          (setItemToCache (setItemToCache test_loader ''lru'' [(''en'', ''Howdy'')]) ''lru'' [(''fr'', ''Hey'')])
          ''lru'' []))
     = (map_of (fst (getItemFromCache test_loader ''lru'' [])))(''en'' \<mapsto> ''Howdy'', ''fr'' \<mapsto> ''Hey'')"
  using cache_set_merges_get_filters [of test_loader "''lru''" "[]" "''Howdy''" "''Hey''" "[]"]
  by (simp add: test_loader_def getItemFromCache_def setItemToCache_def lru_get_def lru_set_def
                lru_trim_def obj_assign_def)

section \<open>Properties of the engine\<close>

lemma clone_keeps_locale:
  assumes "instance_at e < allocated w"
  shows "get_locale (set_timezone (set_locale (snd (clone w e)) (fst (clone w e)) l)
                       (fst (clone w e)) tz) e = get_locale w e"
  using assms
  by (simp add: clone_def set_locale_def set_timezone_def get_locale_def Let_def)

lemma clone_shares_timezone:
  "get_timezone (set_timezone (set_locale (snd (clone w e)) (fst (clone w e)) l)
                   (fst (clone w e)) tz) e = tz"
  by (simp add: clone_def set_locale_def set_timezone_def get_timezone_def Let_def)

text \<open>
  C3 at a concrete engine.  The module's engine has no timezone.  After
  \<open>c = e.clone()\<close>, \<open>c.locale = 'fr'\<close> and \<open>c.timezone = 'Europe/Paris'\<close> (what
  \<open>translate\<close> does for a request), the module's engine still has its locale
  \<open>en\<close> and its logger, and its timezone reads \<open>Europe/Paris\<close>: the clone was
  built on the configuration object of the engine, not on a copy.
\<close>

theorem clone_timezone_reaches_shared_engine:
  "get_timezone test_world test_engine = Undefined
   \<and> get_timezone
        (set_timezone (set_locale (snd (clone test_world test_engine)) (fst (clone test_world test_engine)) ''fr'')
           (fst (clone test_world test_engine)) (Str ''Europe/Paris''))
        test_engine
      = Str ''Europe/Paris''
   \<and> get_locale
        (set_timezone (set_locale (snd (clone test_world test_engine)) (fst (clone test_world test_engine)) ''fr'')
           (fst (clone test_world test_engine)) (Str ''Europe/Paris''))
        test_engine
      = ''en''
   \<and> get_logger test_engine = Logger 0 None"
  by (simp add: clone_def set_locale_def set_timezone_def get_timezone_def get_locale_def
                get_logger_def test_world_def test_engine_def Let_def)

section \<open>Properties of Engine.t\<close>


lemmas translate_eval =
  translate_def clone_def set_locale_def set_timezone_def init_def get_locale_def get_timezone_def
  get_logger_def DEFAULT_LOCALE_def load_def walk.simps(1) validateNode_def TRANSLATE_SCHEMA_def
  TRANSLATE_SYMBOL_def validateType_def get_prop_def prop_index_def child_def
  translateGenerator_def try_block_def placeholders_of_def after_plural_form_def
  i18next_exists_def i18next_t_def i18next_resolve_def i18next_interpolate_def extractFromKey_def
  needsPluralHandling_def match_placeholder_def handleFormat_def getPath_def makeString_def trim_def
  is_space_def formatter_def FORMATTERS_def formatCurrency_def destructure_error_def
  test_ext_def test_world_def test_engine_def test_loader_def test_catalog_def Let_def
















section \<open>Properties of the loader\<close>

lemmas load_eval =
  load_def loadFromCache_def loadFromCache_step_def getLocales_def get_locale_def
  getDefaultLocale_def getItemFromCache_def setItemToCache_def lru_get_def lru_set_def
  lru_trim_def pick_def obj_assign_def set_template_def reformat_def get_reply_def addAll_def
  addTranslations_def addResourceBundle_def warn_def with_redis_def test_world_def
  test_engine_def test_loader_def test_catalog_def failing_remote_def test_remote_def
  spec_load_result_def Let_def List.enumerate_eq_zip














text \<open>
  What \<open>loadFromCache\<close> assembles when two requested keys are cached for the same
  locale: \<open>Object.assign\<close> replaces the locale's whole mapping at each key, so the
  last key stays alone.
\<close>

lemma loadFromCache_keeps_last_key_of_a_locale:
  "fst (fst (loadFromCache
               (with_redis None [(''a'', [(''en'', ''A'')]), (''b'', [(''en'', ''B'')])])
               test_engine [''a'', ''b'']))
     = [(''en'', [(''b'', ''B'')])]"
  by (simp add: load_eval)

text \<open>
  C8 at a concrete call.  Key \<open>a\<close> is in the cache with template \<open>A\<close>, key
  \<open>b\<close> is not, and Redis holds \<open>B\<close> for \<open>b\<close>.  \<open>load\<close> asks Redis for the
  unknown key \<open>b\<close> only, and then zips the one reply with the requested keys
  \<open>[a, b]\<close>: the template of \<open>b\<close> is returned, and written to the cache, under
  key \<open>a\<close>, and \<open>b\<close> gets nothing.  Zipped with the unknown keys, as the
  specification has it, the result holds \<open>A\<close> for \<open>a\<close> and \<open>B\<close> for \<open>b\<close>.
\<close>

theorem load_zips_replies_with_requested_keys:
  "fst (load (with_redis (Some test_remote) [(''a'', [(''en'', ''A'')])]) test_engine [''a'', ''b''])
     = [(''en'', [(''a'', ''B'')])]
   \<and> cached_templates
         (the_loader (snd (load (with_redis (Some test_remote) [(''a'', [(''en'', ''A'')])])
                             test_engine [''a'', ''b''])))
         ''a''
     = [(''en'', ''B'')]
   \<and> cached_templates
         (the_loader (snd (load (with_redis (Some test_remote) [(''a'', [(''en'', ''A'')])])
                             test_engine [''a'', ''b''])))
         ''b''
     = []
   \<and> spec_load_result (with_redis (Some test_remote) [(''a'', [(''en'', ''A'')])]) test_engine
         [''a'', ''b''] [[Some ''B'']]
     = [(''en'', [(''a'', ''A''), (''b'', ''B'')])]"
  by (simp add: load_eval cached_templates_def)

section \<open>Properties of the tree walker and of translate\<close>

declare walk.simps(1) [simp del] same_shape.simps(1) [simp del] untouched.simps(1) [simp del]

lemma co_same_shape:
  "same_shape object (fst (co x e (fst (walk p object)) st))"
  "same_shape_props kvs (fst (co_props x e (fst (walkObject p i kvs)) st))"
  "same_shape_elems vs (fst (co_elems x e (fst (walkArray p i vs)) st))"
proof (induction p object and p i kvs and p i vs arbitrary: st and st and st
       rule: walk_walkObject_walkArray.induct)
  case (1 p object)
  show ?case
  proof (cases "validateNode object")
    case True
    then show ?thesis by (simp add: same_shape.simps(1))
  next
    case False
    show ?thesis
    proof (cases object)
      case (Obj ps)
      then show ?thesis using False 1(2)[OF False Obj]
        by (simp add: walk.simps(1) same_shape.simps(1) Let_def split_beta)
    next
      case (Arr xs)
      then show ?thesis using False 1(1)[OF False Arr]
        by (simp add: walk.simps(1) same_shape.simps(1) Let_def split_beta)
    next
      case (Inst ps j)
      then show ?thesis using False 1(3)[OF False Inst]
        by (cases j) (simp_all add: walk.simps(1) same_shape.simps(1) Let_def split_beta)
    qed (use False in \<open>auto simp add: walk.simps(1) same_shape.simps(1)\<close>)
  qed
next
  case (2 p i)
  then show ?case by simp
next
  case (3 p i key v kvs)
  show ?case using 3(1) 3(2)[OF refl prod.collapse] by (simp add: Let_def split_beta)
next
  case (4 p i)
  then show ?case by simp
next
  case (5 p i v vs)
  show ?case using 5(1) 5(2)[OF refl prod.collapse] by (simp add: Let_def split_beta)
qed


lemma co_untouched:
  "untouched object \<Longrightarrow> co x e (fst (walk p object)) st = (object, st) \<and> snd (walk p object) = []"
  "untouched_props kvs \<Longrightarrow> co_props x e (fst (walkObject p i kvs)) st = (kvs, st) \<and> snd (walkObject p i kvs) = []"
  "untouched_elems vs \<Longrightarrow> co_elems x e (fst (walkArray p i vs)) st = (vs, st) \<and> snd (walkArray p i vs) = []"
proof (induction p object and p i kvs and p i vs arbitrary: st and st and st
       rule: walk_walkObject_walkArray.induct)
  case (1 p object)
  from 1(4) have nv: "\<not> validateNode object"
    by (simp add: untouched.simps(1) split: if_splits)
  show ?case
  proof (cases object)
    case (Obj ps)
    then show ?thesis using nv 1(2)[OF nv Obj] 1(4)
      by (simp add: walk.simps(1) untouched.simps(1) Let_def split_beta)
  next
    case (Arr xs)
    then show ?thesis using nv 1(1)[OF nv Arr] 1(4)
      by (simp add: walk.simps(1) untouched.simps(1) Let_def split_beta)
  next
    case (Inst ps j)
    then show ?thesis using nv 1(4)
      by (cases j) (simp_all add: walk.simps(1) untouched.simps(1) Let_def split_beta)
  qed (use nv in \<open>simp_all add: walk.simps(1)\<close>)
next
  case (2 p i)
  then show ?case by simp
next
  case (3 p i key v kvs)
  show ?case using 3(1) 3(2)[OF refl prod.collapse] 3(3) by (simp add: Let_def split_beta)
next
  case (4 p i)
  then show ?case by simp
next
  case (5 p i v vs)
  show ?case using 5(1) 5(2)[OF refl prod.collapse] 5(3) by (simp add: Let_def split_beta)
qed

lemma translate_out:
  "\<exists>e st. fst (translate x w shared object locale timezone) = fst (co x e (fst (walk (Some []) object)) st)"
  by (auto simp add: translate_def Let_def split_beta)

lemma is_scalar_untouched: "is_scalar v \<Longrightarrow> untouched v"
  by (cases v) (simp_all add: untouched.simps(1) validateNode_def TRANSLATE_SCHEMA_def validateType_def)

lemma translate_untouched:
  assumes "untouched object"
  shows "fst (translate x w shared object locale timezone) = object"
proof -
  obtain e st where "fst (translate x w shared object locale timezone)
                       = fst (co x e (fst (walk (Some []) object)) st)"
    using translate_out by blast
  then show ?thesis using co_untouched(1)[OF assms] by simp
qed

lemma translate_same_shape:
  "same_shape object (fst (translate x w shared object locale timezone))"
proof -
  obtain e st where "fst (translate x w shared object locale timezone)
                       = fst (co x e (fst (walk (Some []) object)) st)"
    using translate_out by blast
  then show ?thesis using co_same_shape(1) by simp
qed

text \<open>
  C1.  The value \<open>translate\<close> returns has the structure of its input outside the
  valid translation nodes: plain objects keep their keys in order, arrays keep their
  elements in order, values that are neither are returned as they are (an object with
  a \<open>toJSON\<close> method stands for what the method returns).  Every scalar is
  returned as it is, and so is every value that holds no valid translation node (and
  no object with a \<open>toJSON\<close> method).
\<close>

theorem translate_preserves_structure:
  "same_shape v (fst (translate x w shared v locale timezone))
   \<and> (is_scalar v \<longrightarrow> fst (translate x w shared v locale timezone) = v)
   \<and> (untouched v \<longrightarrow> fst (translate x w shared v locale timezone) = v)"
  using translate_same_shape translate_untouched is_scalar_untouched by blast

theorem translate_preserves_structure_witness:
  "same_shape (Obj [(''nested'', Obj [(''object'', Obj [(''@translate'', Obj [(''key'', Str ''howdy'')])])])])
     (fst (translate test_ext test_world test_engine
        (Obj [(''nested'', Obj [(''object'', Obj [(''@translate'', Obj [(''key'', Str ''howdy'')])])])])
        ''en'' Null))
   \<and> fst (translate test_ext test_world test_engine (Str ''Hello'') ''en'' Null) = Str ''Hello''
   \<and> fst (translate test_ext test_world test_engine Null ''en'' Null) = Null
   \<and> fst (translate test_ext test_world test_engine
            (Obj [(''@translate'', Obj [(''key'', Str ''howdy'')]), (''wrong'', Str ''key'')]) ''en'' Null)
       = Obj [(''@translate'', Obj [(''key'', Str ''howdy'')]), (''wrong'', Str ''key'')]"
proof -
  have u: "untouched (Obj [(''@translate'', Obj [(''key'', Str ''howdy'')]), (''wrong'', Str ''key'')])"
    by (simp add: untouched.simps(1) validateNode_def TRANSLATE_SCHEMA_def validateType_def get_prop_def)
  show ?thesis
    using translate_preserves_structure [of
            "Obj [(''nested'', Obj [(''object'', Obj [(''@translate'', Obj [(''key'', Str ''howdy'')])])])]"
            test_ext test_world test_engine "''en''" Null]
          translate_preserves_structure [of "Str ''Hello''" test_ext test_world test_engine "''en''" Null]
          translate_preserves_structure [of Null test_ext test_world test_engine "''en''" Null]
          translate_preserves_structure [of
            "Obj [(''@translate'', Obj [(''key'', Str ''howdy'')]), (''wrong'', Str ''key'')]"
            test_ext test_world test_engine "''en''" Null]
          u
    by simp
qed

text \<open>The walker by itself writes nothing into its argument: a value without
  translation nodes is left as it is.\<close>

lemma translate_keeps_untouched_argument:
  assumes "untouched object"
  shows "fst (snd (translate x w shared object locale timezone)) = object"
  using co_untouched(1)[OF assms]
  by (simp add: translate_def Let_def split_beta)

text \<open>
  C2 at two concrete calls.  For the node of the test "translates a label with
  singular form" (a numeric \<open>quantity\<close> and \<open>placeholders\<close>) the caller's object
  holds a \<open>count\<close> among its placeholders after the call; for the node of the test
  "handles error successsfully in formatter" it holds an \<open>error\<close> inside
  \<open>@translate\<close> after the call.  The walker copies plain objects and arrays before
  it writes into them, but hands the \<open>@translate\<close> object of the caller itself to
  \<open>engine.t\<close>, which writes into it.
\<close>

theorem translate_writes_into_its_argument:
  "fst (snd (translate test_ext test_world test_engine
     (Obj [(''@translate'', Obj [(''key'', Str ''plural-dog''), (''quantity'', Num 1),
            (''placeholders'', Obj [(''dog'', Str ''Rantanplan'')])])]) ''en'' Null))
   = Obj [(''@translate'', Obj [(''key'', Str ''plural-dog''), (''quantity'', Num 1),
            (''placeholders'', Obj [(''dog'', Str ''Rantanplan''), (''count'', Num 1)])])]
   \<and> fst (snd (translate test_ext test_world test_engine
     (Obj [(''@translate'', Obj [(''key'', Str ''format-price''),
            (''fallback'', Str ''Le prix est de {{amount, currency}}''),
            (''placeholders'', Obj [(''amount'', Obj [(''value'', Num 12.34), (''currency'', Undefined)])])])])
     ''fr-FR'' Null))
   = Obj [(''@translate'', Obj [(''key'', Str ''format-price''),
            (''fallback'', Str ''Le prix est de {{amount, currency}}''),
            (''placeholders'', Obj [(''amount'', Obj [(''value'', Num 12.34), (''currency'', Undefined)])]),
            (''error'', Err ''Currency code is required when style is currency'')])]"
  by (simp add: translate_eval)




end
